theory Spec2Isabelle
  imports Main "HOL-Library.Word"
begin

unbundle bit_operations_syntax

section \<open>Values of the JavaScript runtime\<close>

text \<open>
  A JavaScript string is a sequence of UTF-16 code units: \<open>s.length\<close> counts code
  units, and an encoding to bytes is chosen at each use (\<open>'utf8'\<close>, \<open>'hex'\<close>).
  A Buffer or Uint8Array is a list of bytes.
\<close>

type_synonym byte = "8 word"
type_synonym jsstring = "16 word list"

text \<open>The code units of an ASCII literal of the source.\<close>

definition js :: "string \<Rightarrow> jsstring" where
  "js s = map (\<lambda>c. of_nat (of_char c)) s"

text \<open>
  The values that flow through the wizard: answers of prompts, fields of the wallet
  objects, and what \<open>JSON.stringify\<close> writes.
\<close>

datatype jsval =
    JUndefined
  | JNull
  | JBool bool
  | JStr jsstring
  | JBytes "byte list"
  | JObj "(string \<times> jsval) list"

text \<open>
  An exception thrown inside a third-party library: \<open>Keypair.fromSecretKey\<close> throws
  "bad secret key size"; any other failure is not told apart.
\<close>

datatype lib_error = Bad_secret_key_size | Other_failure

text \<open>
  Every \<open>throw\<close> of the wallet functions, the TypeError of the runtime, the exceptions
  of the libraries that pass through them, and the failure of the spec's \<open>decrypt\<close>.
\<close>

datatype error =
    Solana_SDK_required
  | Invalid_private_key_format
  | Invalid_seed_phrase
  | TypeError
  | Thrown lib_error
  | WrongPasswordOrCorrupted

subsection \<open>Hexadecimal text\<close>

text \<open>\<open>buf.toString('hex')\<close>: two lowercase digits per byte, high nibble first.\<close>

definition hex_digit :: "nat \<Rightarrow> 16 word" where
  "hex_digit n = (if n < 10 then of_nat (48 + n) else of_nat (87 + n))"

definition toString_hex :: "byte list \<Rightarrow> jsstring" where
  "toString_hex bs =
     concat (map (\<lambda>b. [hex_digit (unat b div 16), hex_digit (unat b mod 16)]) bs)"

text \<open>
  \<open>Buffer.from(s, 'hex')\<close>: pairs of hexadecimal digits (either case) are decoded
  until the first pair that is not one; a trailing single character is dropped. It does
  not throw on a string.
\<close>

definition hex_value :: "16 word \<Rightarrow> nat option" where
  "hex_value c =
     (let n = unat c in
      if 48 \<le> n \<and> n \<le> 57 then Some (n - 48)
      else if 97 \<le> n \<and> n \<le> 102 then Some (n - 87)
      else if 65 \<le> n \<and> n \<le> 70 then Some (n - 55)
      else None)"

fun from_hex :: "jsstring \<Rightarrow> byte list" where
  "from_hex (a # b # cs) =
     (case (hex_value a, hex_value b) of
        (Some x, Some y) \<Rightarrow> of_nat (x * 16 + y) # from_hex cs
      | _ \<Rightarrow> [])"
| "from_hex _ = []"

text \<open>A string made of the digits 0 to 9 and a to f only.\<close>

definition is_hex_digit :: "16 word \<Rightarrow> bool" where
  "is_hex_digit c = (0x30 \<le> c \<and> c \<le> 0x39 \<or> 0x61 \<le> c \<and> c \<le> 0x66)"

definition is_hex :: "jsstring \<Rightarrow> bool" where
  "is_hex s = list_all is_hex_digit s"

subsection \<open>UTF-8\<close>

text \<open>
  The bytes of a string under the \<open>'utf8'\<close> encoding: one byte below U+0080, two
  below U+0800, three for the rest of the basic plane, four for a surrogate pair; a
  surrogate without its partner is written as U+FFFD.
\<close>

definition utf8_2 :: "16 word \<Rightarrow> byte list" where
  "utf8_2 c = [0xC0 OR ucast (drop_bit 6 c), 0x80 OR ucast (c AND 0x3F)]"

definition utf8_3 :: "16 word \<Rightarrow> byte list" where
  "utf8_3 c =
     [0xE0 OR ucast (drop_bit 12 c),
      0x80 OR ucast (drop_bit 6 c AND 0x3F),
      0x80 OR ucast (c AND 0x3F)]"

definition utf8_4 :: "16 word \<Rightarrow> 16 word \<Rightarrow> byte list" where
  "utf8_4 hi lo =
     (let cp = 0x10000 + push_bit 10 (unat (hi AND 0x3FF)) + unat (lo AND 0x3FF) in
      [0xF0 OR of_nat (drop_bit 18 cp),
       0x80 OR of_nat (drop_bit 12 cp AND 0x3F),
       0x80 OR of_nat (drop_bit 6 cp AND 0x3F),
       0x80 OR of_nat (cp AND 0x3F)])"

definition is_high_surrogate :: "16 word \<Rightarrow> bool" where
  "is_high_surrogate c = (0xD800 \<le> c \<and> c < 0xDC00)"

definition is_low_surrogate :: "16 word \<Rightarrow> bool" where
  "is_low_surrogate c = (0xDC00 \<le> c \<and> c < 0xE000)"

definition replacement :: "byte list" where
  "replacement = [0xEF, 0xBF, 0xBD]"

fun utf8 :: "jsstring \<Rightarrow> byte list" where
  "utf8 [] = []"
| "utf8 [c] =
     (if c < 0x80 then [ucast c]
      else if c < 0x800 then utf8_2 c
      else if is_high_surrogate c \<or> is_low_surrogate c then replacement
      else utf8_3 c)"
| "utf8 (c # d # cs) =
     (if c < 0x80 then ucast c # utf8 (d # cs)
      else if c < 0x800 then utf8_2 c @ utf8 (d # cs)
      else if is_high_surrogate c \<and> is_low_surrogate d then utf8_4 c d @ utf8 cs
      else if is_high_surrogate c \<or> is_low_surrogate c then replacement @ utf8 (d # cs)
      else utf8_3 c @ utf8 (d # cs))"

text \<open>
  The string of a byte sequence under \<open>'utf8'\<close>: a lead byte followed by the
  continuation bytes it announces is decoded (one to four bytes), any other byte becomes
  U+FFFD. Only the spec's \<open>decrypt\<close> uses it.
\<close>

definition is_cont :: "byte \<Rightarrow> bool" where
  "is_cont b = (b AND 0xC0 = 0x80)"

definition cont_bits :: "byte \<Rightarrow> nat" where
  "cont_bits b = unat (b AND 0x3F)"

definition code_units :: "nat \<Rightarrow> jsstring" where
  "code_units cp =
     (if cp < 0x10000 then [of_nat cp]
      else [of_nat (0xD800 + drop_bit 10 (cp - 0x10000)),
            of_nat (0xDC00 + (cp - 0x10000) mod 0x400)])"

fun utf8_decode :: "byte list \<Rightarrow> jsstring" where
  "utf8_decode [] = []"
| "utf8_decode (b # bs) =
     (if b < 0x80 then ucast b # utf8_decode bs
      else if 0xC2 \<le> b \<and> b < 0xE0 \<and> 1 \<le> length bs \<and> is_cont (bs ! 0) then
        code_units (push_bit 6 (unat (b AND 0x1F)) + cont_bits (bs ! 0)) @ utf8_decode (drop 1 bs)
      else if 0xE0 \<le> b \<and> b < 0xF0 \<and> 2 \<le> length bs \<and> is_cont (bs ! 0) \<and> is_cont (bs ! 1) then
        code_units (push_bit 12 (unat (b AND 0x0F)) + push_bit 6 (cont_bits (bs ! 0))
                    + cont_bits (bs ! 1)) @ utf8_decode (drop 2 bs)
      else if 0xF0 \<le> b \<and> b < 0xF5 \<and> 3 \<le> length bs
              \<and> is_cont (bs ! 0) \<and> is_cont (bs ! 1) \<and> is_cont (bs ! 2) then
        code_units (push_bit 18 (unat (b AND 0x07)) + push_bit 12 (cont_bits (bs ! 0))
                    + push_bit 6 (cont_bits (bs ! 1)) + cont_bits (bs ! 2)) @ utf8_decode (drop 3 bs)
      else 0xFFFD # utf8_decode bs)"

section \<open>Node's crypto module\<close>

text \<open>
  \<open>crypto.randomBytes(n)\<close> reads the next \<open>n\<close> bytes of the operating system's
  entropy. The source of entropy is an infinite sequence of bytes and a position in it;
  each call moves the position.
\<close>

record rng =
  entropy :: "nat \<Rightarrow> byte"
  pos :: nat

definition randomBytes :: "nat \<Rightarrow> rng \<Rightarrow> byte list \<times> rng" where
  "randomBytes n r = (map (entropy r) [pos r ..< pos r + n], r\<lparr>pos := pos r + n\<rparr>)"

text \<open>
  The primitives themselves are not code of the repository. They are parameters:
  \<open>pbkdf2Sync password salt iterations keylen digest\<close> is the derived key,
  \<open>cipheriv algorithm key iv plaintext\<close> is the ciphertext (\<open>update\<close> followed by
  \<open>final\<close>) with the authentication tag (\<open>getAuthTag\<close>), and
  \<open>decipheriv algorithm key iv ciphertext tag\<close> is the plaintext, or \<open>None\<close> when the
  tag does not verify.
\<close>

record crypto_lib =
  pbkdf2Sync :: "jsstring \<Rightarrow> byte list \<Rightarrow> nat \<Rightarrow> nat \<Rightarrow> string \<Rightarrow> byte list"
  cipheriv :: "string \<Rightarrow> byte list \<Rightarrow> byte list \<Rightarrow> byte list \<Rightarrow> byte list \<times> byte list"
  decipheriv :: "string \<Rightarrow> byte list \<Rightarrow> byte list \<Rightarrow> byte list \<Rightarrow> byte list \<Rightarrow> byte list option"

section \<open>The credential vault\<close>

record encrypted_key =
  encrypted :: jsstring
  salt :: jsstring
  iv :: jsstring
  authTag :: jsstring

text \<open>
  \<open>encryptKey(key, password)\<close>. The salt and the IV are drawn first; \<open>pbkdf2Sync\<close>
  then throws a TypeError when the password is not a string (a prompt answered with an
  empty line yields \<open>undefined\<close>).
\<close>

definition encryptKey :: "crypto_lib \<Rightarrow> jsstring \<Rightarrow> jsval \<Rightarrow> rng \<Rightarrow> (error + encrypted_key) \<times> rng" where
  "encryptKey c key password r =
     (let algorithm = ''aes-256-gcm'';
          (saltBytes, r1) = randomBytes 32 r;
          (ivBytes, r2) = randomBytes 16 r1
      in case password of
           JStr p \<Rightarrow>
             (let derivedKey = pbkdf2Sync c p saltBytes 100000 32 ''sha256'';
                  (ciphertext, tag) = cipheriv c algorithm derivedKey ivBytes (utf8 key)
              in (Inr \<lparr>encrypted = toString_hex ciphertext,
                       salt = toString_hex saltBytes,
                       iv = toString_hex ivBytes,
                       authTag = toString_hex tag\<rparr>, r2))
         | _ \<Rightarrow> (Inl TypeError, r2))"

text \<open>
  Modelled from the spec: the repository has no decryption routine. The spec's
  \<open>decrypt(entry, password)\<close> re-derives the symmetric key from the password and the
  stored salt with the same iteration count, then authenticated-decrypts with the stored
  IV and tag, and fails with \<open>WrongPasswordOrCorrupted\<close> when the tag does not verify.
\<close>

definition decryptKey :: "crypto_lib \<Rightarrow> encrypted_key \<Rightarrow> jsstring \<Rightarrow> error + jsstring" where
  "decryptKey c entry password =
     (let derivedKey = pbkdf2Sync c password (from_hex (salt entry)) 100000 32 ''sha256''
      in case decipheriv c ''aes-256-gcm'' derivedKey (from_hex (iv entry))
                (from_hex (encrypted entry)) (from_hex (authTag entry)) of
           None \<Rightarrow> Inl WrongPasswordOrCorrupted
         | Some plaintext \<Rightarrow> Inr (utf8_decode plaintext))"

section \<open>Objects, truthiness and JSON\<close>

text \<open>
  An object is its list of properties in insertion order. Reading a property that is
  absent gives \<open>undefined\<close>; assigning replaces the value in place or appends.
\<close>

definition getprop :: "jsval \<Rightarrow> string \<Rightarrow> jsval" where
  "getprop v f =
     (case v of
        JObj kvs \<Rightarrow> (case map_of kvs f of Some x \<Rightarrow> x | None \<Rightarrow> JUndefined)
      | _ \<Rightarrow> JUndefined)"

fun assign :: "(string \<times> jsval) list \<Rightarrow> string \<Rightarrow> jsval \<Rightarrow> (string \<times> jsval) list" where
  "assign [] f x = [(f, x)]"
| "assign (kv # kvs) f x = (if fst kv = f then (f, x) # kvs else kv # assign kvs f x)"

definition setprop :: "jsval \<Rightarrow> string \<Rightarrow> jsval \<Rightarrow> jsval" where
  "setprop v f x = (case v of JObj kvs \<Rightarrow> JObj (assign kvs f x) | _ \<Rightarrow> v)"

definition truthy :: "jsval \<Rightarrow> bool" where
  "truthy v =
     (case v of
        JUndefined \<Rightarrow> False
      | JNull \<Rightarrow> False
      | JBool b \<Rightarrow> b
      | JStr s \<Rightarrow> s \<noteq> []
      | JBytes _ \<Rightarrow> True
      | JObj _ \<Rightarrow> True)"

text \<open>\<open>a || b\<close>\<close>

definition or_else :: "jsval \<Rightarrow> jsval \<Rightarrow> jsval" where
  "or_else a b = (if truthy a then a else b)"

text \<open>
  \<open>JSON.stringify\<close> leaves out the properties whose value is \<open>undefined\<close>. A file
  is modelled by the JSON value its text denotes.
\<close>

fun stringify :: "jsval \<Rightarrow> jsval" where
  "stringify (JObj kvs) =
     JObj (map (\<lambda>kv. (fst kv, stringify (snd kv))) (filter (\<lambda>kv. snd kv \<noteq> JUndefined) kvs))"
| "stringify v = v"

section \<open>The third-party libraries\<close>

text \<open>
  \<open>@solana/web3.js\<close>, \<open>bip39\<close>, \<open>ed25519-hd-key\<close>, \<open>bs58\<close>, \<open>inquirer\<close> and
  \<open>ora\<close> are loaded with \<open>require\<close> and may be absent. Each is a record of the
  functions the wizard calls; a function that can throw returns a sum.
\<close>

record keypair =
  kp_publicKey :: "byte list"
  kp_secretKey :: "byte list"

record web3_lib =
  fromSeed :: "byte list \<Rightarrow> lib_error + keypair"
  fromSecretKey :: "byte list \<Rightarrow> lib_error + keypair"
  PublicKey_toString :: "byte list \<Rightarrow> jsstring"

record bip39_lib =
  generateMnemonic :: "nat \<Rightarrow> rng \<Rightarrow> jsstring \<times> rng"
  validateMnemonic :: "jsval \<Rightarrow> bool"
  mnemonicToSeedSync :: "jsval \<Rightarrow> lib_error + byte list"

record derived =
  derived_key :: "byte list"
  chainCode :: "byte list"

record hdkey_lib =
  derivePath :: "string \<Rightarrow> jsstring \<Rightarrow> lib_error + derived"

record bs58_lib =
  bs58_encode :: "byte list \<Rightarrow> jsstring"
  bs58_decode :: "jsval \<Rightarrow> byte list option"

text \<open>
  A question of a prompt: the fields that decide the answer (\<open>message\<close> and \<open>mask\<close>
  are display only; \<open>q_choices\<close> holds the values of the choices).
\<close>

record question =
  q_type :: string
  q_name :: string
  q_choices :: "jsstring list"
  q_default :: jsval
  q_validate :: "(jsval \<Rightarrow> bool) option"

text \<open>
  \<open>inquirer.prompt(questions)\<close>: from the lines the user will enter to the answers
  and the lines left; \<open>None\<close> when it waits for input that never comes.
\<close>

type_synonym inquirer_lib =
  "question list \<Rightarrow> jsstring list \<Rightarrow> ((string \<rightharpoonup> jsval) \<times> jsstring list) option"

record env =
  crypto :: crypto_lib
  inquirer :: "inquirer_lib option"
  ora :: bool
  web3 :: "web3_lib option"
  bip39 :: "bip39_lib option"
  hdkey :: "hdkey_lib option"
  bs58 :: "bs58_lib option"

section \<open>The state of a run\<close>

text \<open>
  What a step of the wizard reads and changes: the lines the user will enter, the
  entropy, the clock (\<open>new Date().toISOString()\<close>), the files under \<open>~/.openclaw\<close>,
  the global \<open>config\<close> object, and the names of the questions put to the user so far.
  Text printed to the terminal is not modelled.
\<close>

record world =
  stdin :: "jsstring list"
  random :: rng
  now :: jsstring
  files :: "string \<rightharpoonup> jsval"
  config :: jsval
  asked :: "string list"

definition CONFIG_FILE :: string where
  "CONFIG_FILE = ''~/.openclaw/config.json''"

definition walletFile :: string where
  "walletFile = ''~/.openclaw/wallets/wallet.json''"

definition saveConfig :: "world \<Rightarrow> world" where
  "saveConfig w = w\<lparr>files := (files w)(CONFIG_FILE \<mapsto> stringify (config w))\<rparr>"

subsection \<open>showSpinner\<close>

text \<open>
  With \<open>ora\<close> the spinner has \<open>start\<close>, \<open>stop\<close>, \<open>succeed\<close> and \<open>fail\<close>. The object
  that \<open>showSpinner\<close> builds without it has no \<open>start\<close>: calling \<open>spinner.start\<close> is
  then a TypeError.
\<close>

definition spinner_start :: "env \<Rightarrow> error + unit" where
  "spinner_start e = (if ora e then Inr () else Inl TypeError)"

subsection \<open>prompt\<close>

text \<open>\<open>toLowerCase\<close>, on the letters A to Z (its result is only compared with \<open>y\<close> and \<open>yes\<close>).\<close>

definition toLowerCase :: "jsstring \<Rightarrow> jsstring" where
  "toLowerCase s = map (\<lambda>c. if 0x41 \<le> c \<and> c \<le> 0x5A then c + 0x20 else c) s"

text \<open>
  The readline fallback of \<open>prompt\<close>: one line per question; \<open>validate\<close> is not
  consulted, a list question answers the text entered, and an empty line answers the
  default (\<open>input || q.default\<close>).
\<close>

definition readline_answer :: "question \<Rightarrow> jsstring \<Rightarrow> jsval" where
  "readline_answer q input =
     (if q_type q = ''confirm'' then
        JBool (toLowerCase input = js ''y'' \<or> toLowerCase input = js ''yes'')
      else if q_type q = ''list'' \<or> q_type q = ''select'' then JStr input
      else or_else (JStr input) (q_default q))"

fun readline_loop ::
  "(string \<rightharpoonup> jsval) \<Rightarrow> question list \<Rightarrow> jsstring list \<Rightarrow> ((string \<rightharpoonup> jsval) \<times> jsstring list) option" where
  "readline_loop answers [] lines = Some (answers, lines)"
| "readline_loop answers (q # qs) [] = None"
| "readline_loop answers (q # qs) (input # rest) =
     readline_loop (answers(q_name q \<mapsto> readline_answer q input)) qs rest"

definition prompt :: "env \<Rightarrow> question list \<Rightarrow> world \<Rightarrow> ((string \<rightharpoonup> jsval) \<times> world) option" where
  "prompt e questions w =
     (case (case inquirer e of
              Some inq \<Rightarrow> inq questions (stdin w)
            | None \<Rightarrow> readline_loop Map.empty questions (stdin w)) of
        None \<Rightarrow> None
      | Some (answers, rest) \<Rightarrow>
          Some (answers, w\<lparr>stdin := rest, asked := asked w @ map q_name questions\<rparr>))"

text \<open>\<open>const { name } = answers\<close>\<close>

definition answer :: "(string \<rightharpoonup> jsval) \<Rightarrow> string \<Rightarrow> jsval" where
  "answer answers name = (case answers name of Some v \<Rightarrow> v | None \<Rightarrow> JUndefined)"

section \<open>The wallet functions\<close>

definition derivation_path :: string where
  "derivation_path = ''m/44'/501'/0'/0'' @ [CHR 0x27]"

text \<open>\<open>generateNewWallet()\<close>\<close>

definition generateNewWallet :: "env \<Rightarrow> rng \<Rightarrow> (error + jsval) \<times> rng" where
  "generateNewWallet e r =
     (case (web3 e, bip39 e, hdkey e, bs58 e) of
        (Some W, Some B, Some H, Some S) \<Rightarrow>
          (let (seedPhrase, r1) = generateMnemonic B 128 r in
           case mnemonicToSeedSync B (JStr seedPhrase) of
             Inl err \<Rightarrow> (Inl (Thrown err), r1)
           | Inr seed \<Rightarrow>
               (case derivePath H derivation_path (toString_hex seed) of
                  Inl err \<Rightarrow> (Inl (Thrown err), r1)
                | Inr d \<Rightarrow>
                    (case fromSeed W (take 32 (derived_key d)) of
                       Inl err \<Rightarrow> (Inl (Thrown err), r1)
                     | Inr kp \<Rightarrow>
                         (let base58Key = bs58_encode S (kp_secretKey kp) in
                          (Inr (JObj
                             [(''publicKey'', JStr (PublicKey_toString W (kp_publicKey kp))),
                              (''seedPhrase'', JStr seedPhrase),
                              (''type'', JStr (js ''local'')),
                              (''network'', JStr (js ''devnet'')),
                              (''base58Key'', JStr base58Key),
                              (''rawSecretKey'', JBytes (kp_secretKey kp))]), r1)))))
      | _ \<Rightarrow> (Inl Solana_SDK_required, r))"

text \<open>
  \<open>Buffer.from(x, 'hex')\<close> on a value: a string is decoded, a byte array is copied,
  anything else the wizard can pass (\<open>undefined\<close>, a boolean) is a TypeError.
\<close>

definition Buffer_from_hex :: "jsval \<Rightarrow> byte list option" where
  "Buffer_from_hex v = (case v of JStr s \<Rightarrow> Some (from_hex s) | JBytes bs \<Rightarrow> Some bs | _ \<Rightarrow> None)"

text \<open>\<open>importFromPrivateKey(privateKey)\<close>\<close>

definition importFromPrivateKey :: "env \<Rightarrow> jsval \<Rightarrow> error + jsval" where
  "importFromPrivateKey e privateKey =
     (case (web3 e, bs58 e) of
        (Some W, Some S) \<Rightarrow>
          (case (case bs58_decode S privateKey of
                   Some bytes \<Rightarrow> Inr bytes
                 | None \<Rightarrow>
                     (case Buffer_from_hex privateKey of
                        Some bytes \<Rightarrow> Inr bytes
                      | None \<Rightarrow> Inl Invalid_private_key_format)) of
             Inl err \<Rightarrow> Inl err
           | Inr secretKey \<Rightarrow>
               (case fromSecretKey W secretKey of
                  Inl err \<Rightarrow> Inl (Thrown err)
                | Inr kp \<Rightarrow>
                    Inr (JObj
                      [(''publicKey'', JStr (PublicKey_toString W (kp_publicKey kp))),
                       (''type'', JStr (js ''imported'')),
                       (''network'', JStr (js ''devnet'')),
                       (''base58Key'', privateKey),
                       (''rawSecretKey'', JBytes (kp_secretKey kp))])))
      | _ \<Rightarrow> Inl Solana_SDK_required)"

text \<open>\<open>importFromSeedPhrase(seedPhrase)\<close>\<close>

definition importFromSeedPhrase :: "env \<Rightarrow> jsval \<Rightarrow> error + jsval" where
  "importFromSeedPhrase e seedPhrase =
     (case (web3 e, bip39 e, hdkey e, bs58 e) of
        (Some W, Some B, Some H, Some S) \<Rightarrow>
          (if \<not> validateMnemonic B seedPhrase then Inl Invalid_seed_phrase
           else
             case mnemonicToSeedSync B seedPhrase of
               Inl err \<Rightarrow> Inl (Thrown err)
             | Inr seed \<Rightarrow>
                 (case derivePath H derivation_path (toString_hex seed) of
                    Inl err \<Rightarrow> Inl (Thrown err)
                  | Inr d \<Rightarrow>
                      (case fromSeed W (take 32 (derived_key d)) of
                         Inl err \<Rightarrow> Inl (Thrown err)
                       | Inr kp \<Rightarrow>
                           Inr (JObj
                             [(''publicKey'', JStr (PublicKey_toString W (kp_publicKey kp))),
                              (''type'', JStr (js ''imported'')),
                              (''network'', JStr (js ''devnet'')),
                              (''base58Key'', JStr (bs58_encode S (kp_secretKey kp))),
                              (''rawSecretKey'', JBytes (kp_secretKey kp))]))))
      | _ \<Rightarrow> Inl Solana_SDK_required)"

text \<open>\<open>connectHardwareWallet()\<close>\<close>

definition nonempty :: "jsval \<Rightarrow> bool" where
  "nonempty v = (case v of JStr s \<Rightarrow> 0 < length s | _ \<Rightarrow> False)"

definition publicKey_question :: question where
  "publicKey_question =
     \<lparr>q_type = ''input'', q_name = ''publicKey'', q_choices = [], q_default = JUndefined,
      q_validate = Some nonempty\<rparr>"

definition connectHardwareWallet :: "env \<Rightarrow> world \<Rightarrow> ((error + jsval) \<times> world) option" where
  "connectHardwareWallet e w =
     (case prompt e [publicKey_question] w of
        None \<Rightarrow> None
      | Some (answers, w1) \<Rightarrow>
          Some (Inr (JObj
                  [(''publicKey'', answer answers ''publicKey''),
                   (''type'', JStr (js ''hardware'')),
                   (''network'', JStr (js ''devnet'')),
                   (''encryptedKey'', JNull)]), w1))"

section \<open>The wallet step of the wizard\<close>

definition manageWallet_question :: question where
  "manageWallet_question =
     \<lparr>q_type = ''list'', q_name = ''manageWallet'',
      q_choices = [js ''keep'', js ''new'', js ''import'', js ''hardware''],
      q_default = JStr (js ''keep''), q_validate = None\<rparr>"

definition walletAction_question :: question where
  "walletAction_question =
     \<lparr>q_type = ''list'', q_name = ''walletAction'',
      q_choices = [js ''create'', js ''import-key'', js ''import-seed'', js ''hardware'', js ''skip''],
      q_default = JStr (js ''create''), q_validate = None\<rparr>"

definition privateKey_question :: question where
  "privateKey_question =
     \<lparr>q_type = ''password'', q_name = ''privateKey'', q_choices = [], q_default = JUndefined,
      q_validate = None\<rparr>"

definition seedPhrase_question :: question where
  "seedPhrase_question =
     \<lparr>q_type = ''input'', q_name = ''seedPhrase'', q_choices = [], q_default = JUndefined,
      q_validate = None\<rparr>"

text \<open>\<open>validate: (input) => input.length >= 8 || 'Password must be at least 8 characters'\<close>\<close>

definition at_least_8 :: "jsval \<Rightarrow> bool" where
  "at_least_8 v = (case v of JStr s \<Rightarrow> 8 \<le> length s | _ \<Rightarrow> False)"

definition password_question :: question where
  "password_question =
     \<lparr>q_type = ''password'', q_name = ''password'', q_choices = [], q_default = JUndefined,
      q_validate = Some at_least_8\<rparr>"

definition confirmPassword_question :: "jsval \<Rightarrow> question" where
  "confirmPassword_question password =
     \<lparr>q_type = ''password'', q_name = ''confirmPassword'', q_choices = [], q_default = JUndefined,
      q_validate = Some (\<lambda>input. input = password)\<rparr>"

definition network_question :: "jsval \<Rightarrow> question" where
  "network_question walletConfig =
     \<lparr>q_type = ''list'', q_name = ''network'',
      q_choices = [js ''devnet'', js ''testnet'', js ''mainnet-beta''],
      q_default = or_else (getprop walletConfig ''network'') (JStr (js ''devnet'')),
      q_validate = None\<rparr>"

definition continue_question :: question where
  "continue_question =
     \<lparr>q_type = ''confirm'', q_name = ''continue'', q_choices = [], q_default = JBool True,
      q_validate = None\<rparr>"

text \<open>The \<open>switch (walletAction)\<close>; no case matches any other answer and \<open>walletData\<close> stays \<open>{}\<close>.\<close>

definition select_wallet :: "env \<Rightarrow> jsval \<Rightarrow> world \<Rightarrow> ((error + jsval) \<times> world) option" where
  "select_wallet e walletAction w =
     (if walletAction = JStr (js ''create'') then
        (case generateNewWallet e (random w) of (res, r1) \<Rightarrow> Some (res, w\<lparr>random := r1\<rparr>))
      else if walletAction = JStr (js ''import-key'') then
        (case prompt e [privateKey_question] w of
           None \<Rightarrow> None
         | Some (answers, w1) \<Rightarrow>
             (case importFromPrivateKey e (answer answers ''privateKey'') of
                Inl err \<Rightarrow> Some (Inl err, w1)
              | Inr walletData \<Rightarrow>
                  (case spinner_start e of
                     Inl err \<Rightarrow> Some (Inl err, w1)
                   | Inr _ \<Rightarrow> Some (Inr walletData, w1))))
      else if walletAction = JStr (js ''import-seed'') then
        (case prompt e [seedPhrase_question] w of
           None \<Rightarrow> None
         | Some (answers, w1) \<Rightarrow>
             (case importFromSeedPhrase e (answer answers ''seedPhrase'') of
                Inl err \<Rightarrow> Some (Inl err, w1)
              | Inr walletData \<Rightarrow>
                  (case spinner_start e of
                     Inl err \<Rightarrow> Some (Inl err, w1)
                   | Inr _ \<Rightarrow> Some (Inr walletData, w1))))
      else if walletAction = JStr (js ''hardware'') then connectHardwareWallet e w
      else Some (Inr (JObj []), w))"

text \<open>The object \<open>encryptKey\<close> returns, as a value.\<close>

definition encrypted_key_obj :: "encrypted_key \<Rightarrow> jsval" where
  "encrypted_key_obj k =
     JObj [(''encrypted'', JStr (encrypted k)), (''salt'', JStr (salt k)),
           (''iv'', JStr (iv k)), (''authTag'', JStr (authTag k))]"

text \<open>\<open>Buffer.from(walletData.rawSecretKey)\<close>\<close>

definition Buffer_from :: "jsval \<Rightarrow> byte list option" where
  "Buffer_from v = (case v of JBytes bs \<Rightarrow> Some bs | JStr s \<Rightarrow> Some (utf8 s) | _ \<Rightarrow> None)"

text \<open>
  "Prompt for password encryption": the value of \<open>encryptedData\<close>, \<open>null\<close> when
  \<open>walletData.rawSecretKey\<close> is not truthy. \<open>spinner.start('Encrypting wallet...')\<close>
  comes between the two prompts and the encryption.
\<close>

definition encrypt_wallet :: "env \<Rightarrow> jsval \<Rightarrow> world \<Rightarrow> ((error + jsval) \<times> world) option" where
  "encrypt_wallet e walletData w =
     (if truthy (getprop walletData ''rawSecretKey'') then
        (case prompt e [password_question] w of
           None \<Rightarrow> None
         | Some (answers1, w1) \<Rightarrow>
             (let password = answer answers1 ''password'' in
              case prompt e [confirmPassword_question password] w1 of
                None \<Rightarrow> None
              | Some (answers2, w2) \<Rightarrow>
                  (case spinner_start e of
                     Inl err \<Rightarrow> Some (Inl err, w2)
                   | Inr _ \<Rightarrow>
                       (case Buffer_from (getprop walletData ''rawSecretKey'') of
                          None \<Rightarrow> Some (Inl TypeError, w2)
                        | Some bytes \<Rightarrow>
                            (let secretKeyHex = toString_hex bytes in
                             case encryptKey (crypto e) secretKeyHex password (random w2) of
                               (Inl err, r1) \<Rightarrow> Some (Inl err, w2\<lparr>random := r1\<rparr>)
                             | (Inr encryptedData, r1) \<Rightarrow>
                                 Some (Inr (encrypted_key_obj encryptedData),
                                       w2\<lparr>random := r1\<rparr>))))))
      else Some (Inr JNull, w))"

text \<open>
  "Save wallet": \<open>walletConfig\<close> is written to the wallet file, stored in
  \<open>config.wallet\<close>, and the configuration is saved.
\<close>

definition walletConfig_of :: "jsval \<Rightarrow> jsval \<Rightarrow> jsstring \<Rightarrow> jsval" where
  "walletConfig_of walletData encryptedData createdAt =
     JObj [(''publicKey'', getprop walletData ''publicKey''),
           (''network'', or_else (getprop walletData ''network'') (JStr (js ''devnet''))),
           (''createdAt'', JStr createdAt),
           (''type'', or_else (getprop walletData ''type'') (JStr (js ''local''))),
           (''encryptedKey'', encryptedData)]"

definition save_wallet :: "jsval \<Rightarrow> world \<Rightarrow> world" where
  "save_wallet walletConfig w =
     saveConfig (w\<lparr>files := (files w)(walletFile \<mapsto> stringify walletConfig),
                   config := setprop (config w) ''wallet'' walletConfig\<rparr>)"

text \<open>"Network selection": \<open>config.wallet.network = network\<close>, then the configuration is saved.\<close>

definition select_network :: "env \<Rightarrow> jsval \<Rightarrow> world \<Rightarrow> world option" where
  "select_network e walletConfig w =
     (case prompt e [network_question walletConfig] w of
        None \<Rightarrow> None
      | Some (answers, w1) \<Rightarrow>
          (let network = answer answers ''network'' in
           Some (saveConfig (w1\<lparr>config :=
                   setprop (config w1) ''wallet''
                     (setprop (getprop (config w1) ''wallet'') ''network'' network)\<rparr>))))"

text \<open>
  The body of the \<open>try\<close>: an exception thrown in it is caught, reported, and the step
  goes on with what had been written until then.
\<close>

definition wallet_try :: "env \<Rightarrow> jsval \<Rightarrow> world \<Rightarrow> ((error + unit) \<times> world) option" where
  "wallet_try e walletAction w =
     (case select_wallet e walletAction w of
        None \<Rightarrow> None
      | Some (Inl err, w1) \<Rightarrow> Some (Inl err, w1)
      | Some (Inr walletData, w1) \<Rightarrow>
          (case encrypt_wallet e walletData w1 of
             None \<Rightarrow> None
           | Some (Inl err, w2) \<Rightarrow> Some (Inl err, w2)
           | Some (Inr encryptedData, w2) \<Rightarrow>
               (let walletConfig = walletConfig_of walletData encryptedData (now w2);
                    w3 = save_wallet walletConfig w2
                in case select_network e walletConfig w3 of
                     None \<Rightarrow> None
                   | Some w4 \<Rightarrow> Some (Inr (), w4))))"

text \<open>\<open>stepWalletSetup()\<close>; \<open>None\<close> when a prompt waits for input that never comes.\<close>

definition stepWalletSetup :: "env \<Rightarrow> world \<Rightarrow> world option" where
  "stepWalletSetup e w =
     (case (if truthy (getprop (config w) ''wallet'') then
              (case prompt e [manageWallet_question] w of
                 None \<Rightarrow> None
               | Some (answers, w1) \<Rightarrow>
                   Some (answer answers ''manageWallet'' = JStr (js ''keep''), w1))
            else Some (False, w)) of
        None \<Rightarrow> None
      | Some (keep, w1) \<Rightarrow>
          if keep then Some w1
          else
            (case prompt e [walletAction_question] w1 of
               None \<Rightarrow> None
             | Some (answers, w2) \<Rightarrow>
                 (let walletAction = answer answers ''walletAction'' in
                  if walletAction = JStr (js ''skip'') then Some w2
                  else
                    (case wallet_try e walletAction w2 of
                       None \<Rightarrow> None
                     | Some (res, w3) \<Rightarrow>
                         (case prompt e [continue_question] w3 of
                            None \<Rightarrow> None
                          | Some (answers', w4) \<Rightarrow> Some w4)))))"

section \<open>What the libraries are assumed to do\<close>

text \<open>
  The cipher is an authenticated cipher: deciphering what it produced, with the same
  key, IV and tag, gives the plaintext back.
\<close>

definition aead_correct :: "crypto_lib \<Rightarrow> bool" where
  "aead_correct c =
     (\<forall>a k n p. decipheriv c a k n (fst (cipheriv c a k n p)) (snd (cipheriv c a k n p)) = Some p)"

text \<open>In Galois/Counter mode the ciphertext is as long as the plaintext.\<close>

definition length_preserving :: "crypto_lib \<Rightarrow> bool" where
  "length_preserving c = (\<forall>a k n p. length (fst (cipheriv c a k n p)) = length p)"

text \<open>
  Modelled from the spec: \<open>Keypair.fromSecretKey\<close> belongs to \<open>@solana/web3.js\<close>, which
  is not in the repository. By the spec the decoded byte length must equal the expected
  secret-key length of the signature scheme, 64 bytes, and any other length is rejected.
\<close>

definition checks_key_length :: "web3_lib \<Rightarrow> bool" where
  "checks_key_length W = (\<forall>sk. length sk \<noteq> 64 \<longrightarrow> fromSecretKey W sk = Inl Bad_secret_key_size)"

text \<open>\<open>pbkdf2Sync\<close> returns as many bytes as it is asked for.\<close>

definition honours_keylen :: "crypto_lib \<Rightarrow> bool" where
  "honours_keylen c = (\<forall>p s i n d. length (pbkdf2Sync c p s i n d) = n)"

text \<open>
  Modelled from the spec: \<open>bip39\<close> is not in the repository. By the spec \<open>generate\<close>
  produces a checksum-valid mnemonic, one that \<open>validate\<close> accepts; the wizard asks for
  128 bits.
\<close>

definition generates_valid :: "bip39_lib \<Rightarrow> bool" where
  "generates_valid B = (\<forall>r. validateMnemonic B (JStr (fst (generateMnemonic B 128 r))))"

section \<open>Properties stated about the wizard\<close>


text \<open>
  The shape of the wallet keystore file: the properties \<open>publicKey\<close> (left out by
  \<open>JSON.stringify\<close> when undefined), \<open>network\<close>, \<open>createdAt\<close>, \<open>type\<close> and
  \<open>encryptedKey\<close>, in this order and no other; \<open>encryptedKey\<close> is \<open>null\<close> or holds
  exactly the four hexadecimal strings.
\<close>

definition is_hex_string :: "jsval \<Rightarrow> bool" where
  "is_hex_string v = (case v of JStr s \<Rightarrow> is_hex s | _ \<Rightarrow> False)"

definition is_encrypted_entry :: "jsval \<Rightarrow> bool" where
  "is_encrypted_entry v =
     (case v of
        JObj kvs \<Rightarrow>
          map fst kvs = [''encrypted'', ''salt'', ''iv'', ''authTag'']
          \<and> list_all (\<lambda>kv. is_hex_string (snd kv)) kvs
      | _ \<Rightarrow> False)"

definition is_keystore_record :: "jsval \<Rightarrow> bool" where
  "is_keystore_record v =
     (case v of
        JObj kvs \<Rightarrow>
          (map fst kvs = [''publicKey'', ''network'', ''createdAt'', ''type'', ''encryptedKey'']
           \<or> map fst kvs = [''network'', ''createdAt'', ''type'', ''encryptedKey''])
          \<and> (getprop v ''encryptedKey'' = JNull \<or> is_encrypted_entry (getprop v ''encryptedKey''))
      | _ \<Rightarrow> False)"


section \<open>An environment to run the wizard in\<close>

text \<open>
  Small stand-ins for the libraries, with which the definitions above can be evaluated:
  a key derivation and a cipher by exclusive or, a keypair whose public half is the seed
  shifted by one, a mnemonic that is the entropy in hexadecimal. Base58 is the real
  encoding.
\<close>

definition demo_entropy :: "nat \<Rightarrow> byte" where
  "demo_entropy i = of_nat (7 * i + 3)"

definition xor_all :: "byte list \<Rightarrow> byte" where
  "xor_all bs = foldr (XOR) bs 0"

definition demo_crypto :: crypto_lib where
  "demo_crypto =
     \<lparr>pbkdf2Sync = (\<lambda>p s i n d. map (\<lambda>j. xor_all s + of_nat (length p + j)) [0..<n]),
      cipheriv = (\<lambda>a k n p. (map (\<lambda>b. b XOR xor_all (k @ n)) p, [xor_all (k @ n @ p)])),
      decipheriv = (\<lambda>a k n ct tag.
        (let p = map (\<lambda>b. b XOR xor_all (k @ n)) ct
         in if tag = [xor_all (k @ n @ p)] then Some p else None))\<rparr>"

definition base58_alphabet :: jsstring where
  "base58_alphabet = js ''123456789ABCDEFGHJKLMNPQRSTUVWXYZabcdefghijkmnopqrstuvwxyz''"

fun index_of :: "'a \<Rightarrow> 'a list \<Rightarrow> nat option" where
  "index_of x [] = None"
| "index_of x (y # ys) = (if x = y then Some 0 else map_option Suc (index_of x ys))"

text \<open>
  One step of a change of base: the digits \<open>ds\<close> (least significant first, base \<open>b\<close>)
  times \<open>m\<close> plus the carry \<open>c\<close>.
\<close>

fun mul_add :: "nat \<Rightarrow> nat \<Rightarrow> nat \<Rightarrow> nat list \<Rightarrow> nat list" where
  "mul_add m b c [] = (if c = 0 then [] else if c < b then [c] else [c mod b, c div b])"
| "mul_add m b c (d # ds) = (let x = d * m + c in x mod b # mul_add m b (x div b) ds)"

definition change_base :: "nat \<Rightarrow> nat \<Rightarrow> nat list \<Rightarrow> nat list" where
  "change_base m b ds = rev (foldl (\<lambda>acc d. mul_add m b d acc) [] ds)"

definition leading_zeros :: "nat list \<Rightarrow> nat" where
  "leading_zeros ds = length (takeWhile (\<lambda>d. d = 0) ds)"

definition base58_encode :: "byte list \<Rightarrow> jsstring" where
  "base58_encode bs =
     (let ds = map unat bs
      in map (\<lambda>d. base58_alphabet ! d) (replicate (leading_zeros ds) 0 @ change_base 256 58 ds))"

definition base58_decode :: "jsstring \<Rightarrow> byte list option" where
  "base58_decode s =
     (case those (map (\<lambda>c. index_of c base58_alphabet) s) of
        None \<Rightarrow> None
      | Some ds \<Rightarrow> Some (map of_nat (replicate (leading_zeros ds) 0 @ change_base 58 256 ds)))"

definition demo_bs58 :: bs58_lib where
  "demo_bs58 =
     \<lparr>bs58_encode = base58_encode,
      bs58_decode = (\<lambda>v. case v of JStr s \<Rightarrow> base58_decode s | _ \<Rightarrow> None)\<rparr>"

definition demo_public :: "byte list \<Rightarrow> byte list" where
  "demo_public seed = map (\<lambda>b. b + 1) seed"

definition demo_web3 :: web3_lib where
  "demo_web3 =
     \<lparr>fromSeed = (\<lambda>seed.
        if length seed = 32
        then Inr \<lparr>kp_publicKey = demo_public seed, kp_secretKey = seed @ demo_public seed\<rparr>
        else Inl Other_failure),
      fromSecretKey = (\<lambda>sk.
        if length sk \<noteq> 64 then Inl Bad_secret_key_size
        else if drop 32 sk \<noteq> demo_public (take 32 sk) then Inl Other_failure
        else Inr \<lparr>kp_publicKey = drop 32 sk, kp_secretKey = sk\<rparr>),
      PublicKey_toString = base58_encode\<rparr>"

definition demo_bip39 :: bip39_lib where
  "demo_bip39 =
     \<lparr>generateMnemonic = (\<lambda>bits r. case randomBytes (bits div 8) r of (bs, r1) \<Rightarrow> (toString_hex bs, r1)),
      validateMnemonic = (\<lambda>v. case v of JStr s \<Rightarrow> is_hex s \<and> length s = 32 | _ \<Rightarrow> False),
      mnemonicToSeedSync = (\<lambda>v. case v of JStr s \<Rightarrow> Inr (utf8 s @ utf8 s) | _ \<Rightarrow> Inl Other_failure)\<rparr>"

definition demo_hdkey :: hdkey_lib where
  "demo_hdkey =
     \<lparr>derivePath = (\<lambda>path seedHex.
        if path = derivation_path
        then Inr \<lparr>derived_key = take 32 (from_hex seedHex), chainCode = drop 32 (from_hex seedHex)\<rparr>
        else Inl Other_failure)\<rparr>"

text \<open>The wizard with \<open>ora\<close> and the Solana libraries installed, and without \<open>inquirer\<close>.\<close>

definition demo_env :: env where
  "demo_env =
     \<lparr>crypto = demo_crypto, inquirer = None, ora = True, web3 = Some demo_web3,
      bip39 = Some demo_bip39, hdkey = Some demo_hdkey, bs58 = Some demo_bs58\<rparr>"

text \<open>A first run: no file yet, the initial \<open>config\<close>, and the lines the user enters.\<close>

definition initial_config :: jsval where
  "initial_config =
     JObj [(''version'', JStr (js ''1.0.0'')), (''installed'', JBool False), (''wallet'', JNull),
           (''skills'', JObj []), (''preferences'', JObj []), (''onboardingComplete'', JBool False)]"

definition demo_world :: "jsstring list \<Rightarrow> world" where
  "demo_world lines =
     \<lparr>stdin = lines, random = \<lparr>entropy = demo_entropy, pos = 0\<rparr>,
      now = js ''2026-01-01T00:00:00.000Z'', files = Map.empty, config = initial_config,
      asked = []\<rparr>"

section \<open>Hexadecimal text and UTF-8 of ASCII strings\<close>

lemma unat_hex_digit: "n < 16 \<Longrightarrow> unat (hex_digit n) = (if n < 10 then 48 + n else 87 + n)"
  unfolding hex_digit_def by (simp only: unat_of_nat split: if_split) simp

lemma hex_value_hex_digit: "n < 16 \<Longrightarrow> hex_value (hex_digit n) = Some n"
  by (simp add: hex_value_def unat_hex_digit Let_def)

lemma is_hex_digit_hex_digit: "n < 16 \<Longrightarrow> is_hex_digit (hex_digit n)"
  by (simp add: is_hex_digit_def word_le_nat_alt unat_hex_digit)

lemma unat_byte_div16: "unat (b :: byte) div 16 < 16"
  using unsigned_less [of b, where ?'a = nat] by simp

lemma from_hex_toString_hex: "from_hex (toString_hex bs) = bs"
  by (induction bs) (simp_all add: toString_hex_def hex_value_hex_digit unat_byte_div16)

lemma length_toString_hex: "length (toString_hex bs) = 2 * length bs"
  by (induction bs) (simp_all add: toString_hex_def)

lemma is_hex_toString_hex: "is_hex (toString_hex bs)"
  by (induction bs)
    (simp_all add: toString_hex_def is_hex_def is_hex_digit_hex_digit unat_byte_div16)


lemma is_hex_digit_ascii: "is_hex_digit c \<Longrightarrow> c < 0x80"
  by (auto simp: is_hex_digit_def word_le_nat_alt word_less_nat_alt)

lemma is_hex_ascii: "is_hex s \<Longrightarrow> list_all (\<lambda>c. c < 0x80) s"
  by (simp add: is_hex_def list_all_iff is_hex_digit_ascii)

lemma ucast_ascii: "(c :: 16 word) < 0x80 \<Longrightarrow> (ucast (ucast c :: byte) :: 16 word) = c"
  by (simp add: word_unat_eq_iff unsigned_ucast_eq word_less_nat_alt take_bit_eq_mod
      unat_mod_distrib)

lemma ucast_ascii_lt: "(c :: 16 word) < 0x80 \<Longrightarrow> (ucast c :: byte) < 0x80"
  by (simp add: unsigned_ucast_eq word_less_nat_alt take_bit_eq_mod)

lemma utf8_ascii: "list_all (\<lambda>c. c < 0x80) s \<Longrightarrow> utf8 s = map ucast s"
  by (induction s rule: utf8.induct) simp_all

lemma utf8_decode_ascii: "list_all (\<lambda>b. b < 0x80) bs \<Longrightarrow> utf8_decode bs = map ucast bs"
  by (induction bs) simp_all

lemma utf8_roundtrip_ascii:
  assumes "list_all (\<lambda>c. c < 0x80) s"
  shows "utf8_decode (utf8 s) = s"
proof -
  have bytes: "list_all (\<lambda>b. b < 0x80) (map ucast s :: byte list)"
    using assms by (simp add: list_all_iff ucast_ascii_lt)
  have "utf8_decode (utf8 s) = map ucast (map ucast s :: byte list)"
    using assms bytes by (simp add: utf8_ascii utf8_decode_ascii)
  also have "\<dots> = s"
    using assms by (induction s) (simp_all add: ucast_ascii)
  finally show ?thesis .
qed

lemma length_utf8_hex: "length (utf8 (toString_hex bs)) = 2 * length bs"
  by (simp add: utf8_ascii is_hex_ascii is_hex_toString_hex length_toString_hex)

section \<open>The stand-in libraries keep the assumptions\<close>

lemma xor_twice: "(\<lambda>b :: byte. b XOR m) \<circ> (\<lambda>b. b XOR m) = id"
  by (rule ext) (simp add: xor.assoc)

lemma demo_crypto_aead: "aead_correct demo_crypto"
  by (simp add: aead_correct_def demo_crypto_def Let_def xor_twice)

lemma demo_crypto_length: "length_preserving demo_crypto"
  by (simp add: length_preserving_def demo_crypto_def)

lemma demo_crypto_keylen: "honours_keylen demo_crypto"
  by (simp add: honours_keylen_def demo_crypto_def)

lemma demo_web3_checks: "checks_key_length demo_web3"
  by (simp add: checks_key_length_def demo_web3_def)

lemma demo_bip39_valid: "generates_valid demo_bip39"
  by (simp add: generates_valid_def demo_bip39_def randomBytes_def is_hex_toString_hex
      length_toString_hex)

lemma is_hex_deadbeef: "is_hex (js ''deadbeef'')"
  by (simp add: is_hex_def js_def is_hex_digit_def)

section \<open>The credential vault: what \<open>encryptKey\<close> computes\<close>

text \<open>The result of \<open>encryptKey\<close> on a string password, with the two draws written out.\<close>

lemma encryptKey_string:
  "encryptKey c k (JStr p) r =
     (Inr \<lparr>encrypted = toString_hex (fst (cipheriv c ''aes-256-gcm''
               (pbkdf2Sync c p (map (entropy r) [pos r ..< pos r + 32]) 100000 32 ''sha256'')
               (map (entropy r) [pos r + 32 ..< pos r + 48]) (utf8 k))),
           salt = toString_hex (map (entropy r) [pos r ..< pos r + 32]),
           iv = toString_hex (map (entropy r) [pos r + 32 ..< pos r + 48]),
           authTag = toString_hex (snd (cipheriv c ''aes-256-gcm''
               (pbkdf2Sync c p (map (entropy r) [pos r ..< pos r + 32]) 100000 32 ''sha256'')
               (map (entropy r) [pos r + 32 ..< pos r + 48]) (utf8 k)))\<rparr>,
      r\<lparr>pos := pos r + 48\<rparr>)"
  by (simp add: encryptKey_def randomBytes_def Let_def case_prod_beta add.commute)

text \<open>
  C1. For every password \<open>p\<close> (a string) and every key \<open>k\<close> written in hexadecimal
  digits, encrypting \<open>k\<close> under \<open>p\<close> succeeds and decrypting the entry with \<open>p\<close> returns
  \<open>k\<close>, with any cipher that deciphers what it enciphered. Decryption re-derives the
  key from \<open>p\<close> and the stored salt with the same iteration count and uses the stored IV
  and tag.
\<close>

theorem decrypt_encrypt_roundtrip:
  assumes "aead_correct c" and "is_hex k"
  shows "\<exists>e r'. encryptKey c k (JStr p) r = (Inr e, r') \<and> decryptKey c e p = Inr k"
  using assms
  by (simp add: encryptKey_string decryptKey_def from_hex_toString_hex aead_correct_def
      utf8_roundtrip_ascii is_hex_ascii)

theorem decrypt_encrypt_roundtrip_witness:
  "aead_correct demo_crypto \<and> is_hex (js ''deadbeef'')
   \<and> (\<exists>e r'. encryptKey demo_crypto (js ''deadbeef'') (JStr (js ''correct-password''))
                 \<lparr>entropy = demo_entropy, pos = 0\<rparr> = (Inr e, r')
             \<and> decryptKey demo_crypto e (js ''correct-password'') = Inr (js ''deadbeef''))"
  using decrypt_encrypt_roundtrip [OF demo_crypto_aead is_hex_deadbeef,
      of "js ''correct-password''" "\<lparr>entropy = demo_entropy, pos = 0\<rparr>"]
    demo_crypto_aead is_hex_deadbeef
  by simp

lemma randomBytes_eq:
  "fst (randomBytes n r) = map (entropy r) [pos r ..< pos r + n]"
  "snd (randomBytes n r) = r\<lparr>pos := pos r + n\<rparr>"
  by (simp_all add: randomBytes_def)

text \<open>
  C3. For every key string \<open>k\<close> and password \<open>p\<close>, \<open>encryptKey\<close> draws a salt of 32
  bytes and then an IV of 16 bytes from the entropy, derives the key with
  \<open>pbkdf2Sync\<close> from \<open>p\<close> and the salt with 100000 iterations, 32 bytes asked for and
  \<open>sha256\<close>, enciphers the UTF-8 bytes of \<open>k\<close> with \<open>aes-256-gcm\<close> under that key and
  IV, and returns ciphertext, salt, IV and tag as four hexadecimal strings, each one
  decoding back to its bytes.
\<close>

theorem encryptKey_steps:
  "\<exists>e. encryptKey c k (JStr p) r = (Inr e, snd (randomBytes 16 (snd (randomBytes 32 r))))
     \<and> (let saltBytes = fst (randomBytes 32 r);
            ivBytes = fst (randomBytes 16 (snd (randomBytes 32 r)));
            derivedKey = pbkdf2Sync c p saltBytes 100000 32 ''sha256'';
            out = cipheriv c ''aes-256-gcm'' derivedKey ivBytes (utf8 k)
        in length saltBytes = 32 \<and> length ivBytes = 16
           \<and> (honours_keylen c \<longrightarrow> length derivedKey = 32)
           \<and> e = \<lparr>encrypted = toString_hex (fst out), salt = toString_hex saltBytes,
                   iv = toString_hex ivBytes, authTag = toString_hex (snd out)\<rparr>
           \<and> is_hex (encrypted e) \<and> is_hex (salt e) \<and> is_hex (iv e) \<and> is_hex (authTag e)
           \<and> length (salt e) = 64 \<and> length (iv e) = 32
           \<and> from_hex (encrypted e) = fst out \<and> from_hex (salt e) = saltBytes
           \<and> from_hex (iv e) = ivBytes \<and> from_hex (authTag e) = snd out)"
  by (simp add: encryptKey_string randomBytes_eq Let_def honours_keylen_def add.commute
      is_hex_toString_hex length_toString_hex from_hex_toString_hex)

theorem encryptKey_steps_witness:
  "honours_keylen demo_crypto
   \<and> length (pbkdf2Sync demo_crypto (js ''correct-password'')
        (fst (randomBytes 32 \<lparr>entropy = demo_entropy, pos = 0\<rparr>)) 100000 32 ''sha256'') = 32"
  using encryptKey_steps [of demo_crypto "js ''deadbeef''" "js ''correct-password''"
      "\<lparr>entropy = demo_entropy, pos = 0\<rparr>"] demo_crypto_keylen
  by (simp add: Let_def)

lemma encryptKey_Inr:
  assumes "encryptKey c k p r = (Inr x, r1)"
  shows "\<exists>s. p = JStr s"
  using assms
  by (cases p) (simp_all add: encryptKey_def randomBytes_def Let_def split: prod.splits)

text \<open>
  C10. For every key string \<open>k\<close> and password \<open>p\<close>, the plaintext handed to the cipher
  is the UTF-8 encoding of the text \<open>k\<close>, so with a cipher whose ciphertext is as long
  as its plaintext the \<open>encrypted\<close> field has twice as many characters as \<open>k\<close> has
  UTF-8 bytes. When \<open>k\<close> is the hexadecimal text of raw bytes, that is four characters
  for each raw byte, and the plaintext is not the raw bytes. The wallet step passes the
  hexadecimal text of \<open>rawSecretKey\<close>: the \<open>encrypted\<close> field it obtains has four
  characters for each byte of the secret key.
\<close>

theorem encrypted_length:
  assumes "length_preserving c"
  shows "(\<exists>e r'. encryptKey c k (JStr p) r = (Inr e, r')
     \<and> from_hex (encrypted e) =
         fst (cipheriv c ''aes-256-gcm''
               (pbkdf2Sync c p (from_hex (salt e)) 100000 32 ''sha256'') (from_hex (iv e)) (utf8 k))
     \<and> length (encrypted e) = 2 * length (utf8 k)
     \<and> (\<forall>raw. k = toString_hex raw \<longrightarrow>
            length (encrypted e) = 4 * length raw \<and> (raw \<noteq> [] \<longrightarrow> utf8 k \<noteq> raw)))
   \<and> (\<forall>env walletData w sk encryptedData w1.
         crypto env = c \<and> getprop walletData ''rawSecretKey'' = JBytes sk
         \<and> encrypt_wallet env walletData w = Some (Inr encryptedData, w1) \<longrightarrow>
         (\<exists>s. getprop encryptedData ''encrypted'' = JStr s \<and> length s = 4 * length sk))"
proof -
  have raw: "raw \<noteq> [] \<Longrightarrow> utf8 (toString_hex raw) \<noteq> raw" for raw
    using length_utf8_hex [of raw] by (cases raw) auto
  have len: "length (fst (cipheriv c a x n q)) = length q" for a x n q
    using assms by (simp add: length_preserving_def)
  have key: "length (encrypted x) = 4 * length sk"
    if h: "encryptKey c (toString_hex sk) p r0 = (Inr x, r1)" for sk p r0 x r1
  proof -
    obtain s where "p = JStr s" using encryptKey_Inr [OF h] by blast
    with h show ?thesis
      by (auto simp: encryptKey_string length_toString_hex len length_utf8_hex)
  qed
  have step: "\<exists>s. getprop encryptedData ''encrypted'' = JStr s \<and> length s = 4 * length sk"
    if "crypto env = c" "getprop walletData ''rawSecretKey'' = JBytes sk"
      "encrypt_wallet env walletData w = Some (Inr encryptedData, w1)"
    for env walletData w sk encryptedData w1
    using that key
    by (auto simp: encrypt_wallet_def Let_def truthy_def Buffer_from_def encrypted_key_obj_def
        getprop_def split: if_splits option.splits sum.splits prod.splits)
  show ?thesis
    using raw step
    by (simp add: encryptKey_string from_hex_toString_hex length_toString_hex len
        length_utf8_hex) blast
qed

theorem encrypted_length_witness:
  "length_preserving demo_crypto
   \<and> (\<exists>e r'. encryptKey demo_crypto (toString_hex [0xde, 0xad]) (JStr (js ''correct-password''))
               \<lparr>entropy = demo_entropy, pos = 0\<rparr> = (Inr e, r')
          \<and> length (encrypted e) = 8 \<and> utf8 (toString_hex [0xde, 0xad]) \<noteq> [0xde, 0xad])"
proof -
  obtain e r' where e: "encryptKey demo_crypto (toString_hex [0xde, 0xad])
        (JStr (js ''correct-password'')) \<lparr>entropy = demo_entropy, pos = 0\<rparr> = (Inr e, r')"
    and raw: "\<forall>raw. toString_hex [0xde, 0xad] = toString_hex raw \<longrightarrow>
            length (encrypted e) = 4 * length raw
            \<and> (raw \<noteq> [] \<longrightarrow> utf8 (toString_hex [0xde, 0xad]) \<noteq> raw)"
    using encrypted_length [OF demo_crypto_length, of "toString_hex [0xde, 0xad]"
        "js ''correct-password''" "\<lparr>entropy = demo_entropy, pos = 0\<rparr>"]
    by blast
  from raw have "length (encrypted e) = 4 * length [0xde, 0xad :: byte]
      \<and> utf8 (toString_hex [0xde, 0xad]) \<noteq> [0xde, 0xad]"
    by blast
  with e demo_crypto_length show ?thesis by auto
qed







section \<open>The wallet functions: decoding, validation, derivation\<close>

text \<open>
  C5. For every value \<open>v\<close> the user supplies as a private key, with the Solana
  libraries present: the import fails with the format error exactly when the base58
  decoding and then the hexadecimal decoding both fail. The bytes used are those of
  base58 when it decodes, and those of the hexadecimal decoding only when base58 failed.
  Bytes whose length is not 64 (ten bytes, say) are rejected with the key-size error by
  the keypair constructor; a constructor error is passed on, and an accepted keypair gives
  the imported wallet.
\<close>

theorem importFromPrivateKey_decoding:
  assumes "web3 e = Some W" and "bs58 e = Some S" and "checks_key_length W"
  shows "(importFromPrivateKey e v = Inl Invalid_private_key_format
            \<longleftrightarrow> bs58_decode S v = None \<and> Buffer_from_hex v = None)
     \<and> (\<forall>bytes. bs58_decode S v = Some bytes
                 \<or> bs58_decode S v = None \<and> Buffer_from_hex v = Some bytes \<longrightarrow>
           (length bytes \<noteq> 64 \<longrightarrow> importFromPrivateKey e v = Inl (Thrown Bad_secret_key_size))
           \<and> (\<forall>err. fromSecretKey W bytes = Inl err \<longrightarrow> importFromPrivateKey e v = Inl (Thrown err))
           \<and> (\<forall>kp. fromSecretKey W bytes = Inr kp \<longrightarrow>
                 (\<exists>wallet. importFromPrivateKey e v = Inr wallet
                    \<and> getprop wallet ''publicKey'' = JStr (PublicKey_toString W (kp_publicKey kp))
                    \<and> getprop wallet ''rawSecretKey'' = JBytes (kp_secretKey kp)
                    \<and> getprop wallet ''type'' = JStr (js ''imported''))))"
proof -
  have size: "length bytes \<noteq> 64 \<Longrightarrow> fromSecretKey W bytes = Inl Bad_secret_key_size" for bytes
    using assms(3) by (simp add: checks_key_length_def)
  show ?thesis
    using assms(1,2) size
    by (auto simp: importFromPrivateKey_def getprop_def split: option.splits sum.splits)
qed

lemma ten_ones: "bs58_decode demo_bs58 (JStr (js ''1111111111'')) = Some (replicate 10 0)"
  by code_simp

lemma undefined_key: "bs58_decode demo_bs58 JUndefined = None" "Buffer_from_hex JUndefined = None"
  by (simp_all add: demo_bs58_def Buffer_from_hex_def)

theorem importFromPrivateKey_decoding_witness:
  "web3 demo_env = Some demo_web3 \<and> bs58 demo_env = Some demo_bs58
   \<and> checks_key_length demo_web3
   \<and> bs58_decode demo_bs58 (JStr (js ''1111111111'')) = Some (replicate 10 0)
   \<and> length (replicate 10 (0 :: byte)) \<noteq> 64
   \<and> importFromPrivateKey demo_env (JStr (js ''1111111111'')) = Inl (Thrown Bad_secret_key_size)
   \<and> bs58_decode demo_bs58 JUndefined = None \<and> Buffer_from_hex JUndefined = None
   \<and> importFromPrivateKey demo_env JUndefined = Inl Invalid_private_key_format"
proof -
  have libs: "web3 demo_env = Some demo_web3" "bs58 demo_env = Some demo_bs58"
    by (simp_all add: demo_env_def)
  note inst = importFromPrivateKey_decoding [OF libs demo_web3_checks]
  have "importFromPrivateKey demo_env (JStr (js ''1111111111'')) = Inl (Thrown Bad_secret_key_size)"
    using inst [of "JStr (js ''1111111111'')"] ten_ones by simp
  moreover have "importFromPrivateKey demo_env JUndefined = Inl Invalid_private_key_format"
    using inst [of JUndefined] undefined_key by simp
  ultimately show ?thesis
    using libs demo_web3_checks ten_ones undefined_key by simp
qed

text \<open>
  C6. For every phrase \<open>v\<close> that \<open>validateMnemonic\<close> rejects, import-by-mnemonic fails
  with the invalid-seed-phrase error, and it does so whatever \<open>mnemonicToSeedSync\<close>,
  \<open>derivePath\<close>, the keypair constructor and the base58 encoder would compute or throw:
  none of them takes part in the result.
\<close>

theorem importFromSeedPhrase_gate:
  assumes "bip39 e = Some B" and "\<not> validateMnemonic B v"
    and "web3 e = Some W" and "hdkey e = Some H" and "bs58 e = Some S"
  shows "importFromSeedPhrase e v = Inl Invalid_seed_phrase
     \<and> (\<forall>toSeed H' W' S'.
           importFromSeedPhrase
             (e\<lparr>bip39 := Some (B\<lparr>mnemonicToSeedSync := toSeed\<rparr>), hdkey := Some H',
                web3 := Some W', bs58 := Some S'\<rparr>) v = Inl Invalid_seed_phrase)"
  using assms by (simp add: importFromSeedPhrase_def)

theorem importFromSeedPhrase_gate_witness:
  "bip39 demo_env = Some demo_bip39
   \<and> \<not> validateMnemonic demo_bip39 (JStr (js ''not a mnemonic''))
   \<and> importFromSeedPhrase demo_env (JStr (js ''not a mnemonic'')) = Inl Invalid_seed_phrase"
proof -
  have libs: "bip39 demo_env = Some demo_bip39" "web3 demo_env = Some demo_web3"
    "hdkey demo_env = Some demo_hdkey" "bs58 demo_env = Some demo_bs58"
    by (simp_all add: demo_env_def)
  have bad: "\<not> validateMnemonic demo_bip39 (JStr (js ''not a mnemonic''))"
    by (simp add: demo_bip39_def js_def)
  show ?thesis
    using importFromSeedPhrase_gate [OF libs(1) bad libs(2,3,4)] libs(1) bad by simp
qed

text \<open>
  C7. When creating a wallet succeeds with mnemonic \<open>M\<close> and public key \<open>PK1\<close>, and
  \<open>bip39\<close> accepts the mnemonics it generates, importing by mnemonic with \<open>M\<close> succeeds
  with the same public key and the same secret key: both paths run \<open>mnemonicToSeedSync\<close>,
  \<open>derivePath\<close> with \<open>m/44'/501'/0'/0'\<close> and \<open>Keypair.fromSeed\<close> on the same phrase.
\<close>

theorem create_then_import:
  assumes "generateNewWallet e r = (Inr created, r')"
    and "bip39 e = Some B" and "generates_valid B"
  shows "\<exists>imported. importFromSeedPhrase e (getprop created ''seedPhrase'') = Inr imported
     \<and> getprop imported ''publicKey'' = getprop created ''publicKey''
     \<and> getprop imported ''rawSecretKey'' = getprop created ''rawSecretKey''
     \<and> getprop imported ''type'' = JStr (js ''imported'')"
proof -
  have valid: "validateMnemonic B (JStr (fst (generateMnemonic B 128 r)))"
    using assms(3) by (simp add: generates_valid_def)
  show ?thesis
    using assms(1,2) valid
    by (auto simp: generateNewWallet_def importFromSeedPhrase_def getprop_def Let_def
        split: option.splits sum.splits prod.splits)
qed


lemma demo_generate:
  "\<exists>created r'. generateNewWallet demo_env \<lparr>entropy = demo_entropy, pos = 0\<rparr> = (Inr created, r')"
  by (simp add: generateNewWallet_def demo_env_def demo_bip39_def demo_hdkey_def demo_web3_def
      randomBytes_def Let_def from_hex_toString_hex length_utf8_hex)

theorem create_then_import_witness:
  "bip39 demo_env = Some demo_bip39 \<and> generates_valid demo_bip39
   \<and> (\<exists>created r' imported.
         generateNewWallet demo_env \<lparr>entropy = demo_entropy, pos = 0\<rparr> = (Inr created, r')
         \<and> importFromSeedPhrase demo_env (getprop created ''seedPhrase'') = Inr imported
         \<and> getprop imported ''publicKey'' = getprop created ''publicKey'')"
proof -
  have lib: "bip39 demo_env = Some demo_bip39"
    by (simp add: demo_env_def)
  obtain created r' where
    gen: "generateNewWallet demo_env \<lparr>entropy = demo_entropy, pos = 0\<rparr> = (Inr created, r')"
    using demo_generate by blast
  from create_then_import [OF gen lib demo_bip39_valid] gen lib demo_bip39_valid
  show ?thesis by blast
qed

section \<open>The wallet step: what is asked, encrypted and written\<close>

lemma prompt_world:
  assumes "prompt e qs w = Some (a, w1)"
  shows "\<exists>rest. w1 = w\<lparr>stdin := rest, asked := asked w @ map q_name qs\<rparr>"
  using assms by (auto simp: prompt_def split: option.splits)

lemma prompt_readline:
  assumes "inquirer e = None" and "stdin w = input # rest"
  shows "prompt e [q] w =
     Some ([q_name q \<mapsto> readline_answer q input],
           w\<lparr>stdin := rest, asked := asked w @ [q_name q]\<rparr>)"
  using assms by (simp add: prompt_def)

lemma answer_single: "answer [n \<mapsto> v] n = v"
  by (simp add: answer_def)

lemma walletFile_neq: "CONFIG_FILE \<noteq> walletFile"
  by (simp add: CONFIG_FILE_def walletFile_def)

lemma saveConfig_fields:
  "files (saveConfig w) walletFile = files w walletFile"
  "random (saveConfig w) = random w" "asked (saveConfig w) = asked w"
  "stdin (saveConfig w) = stdin w" "config (saveConfig w) = config w" "now (saveConfig w) = now w"
  using walletFile_neq by (simp_all add: saveConfig_def)

lemma save_wallet_fields:
  "files (save_wallet wc w) walletFile = Some (stringify wc)"
  "random (save_wallet wc w) = random w" "asked (save_wallet wc w) = asked w"
  "stdin (save_wallet wc w) = stdin w" "now (save_wallet wc w) = now w"
  by (simp_all add: save_wallet_def saveConfig_fields)

lemma select_network_fields:
  assumes "select_network e wc w = Some w1"
  shows "files w1 walletFile = files w walletFile" "random w1 = random w"
    "asked w1 = asked w @ [''network'']"
  using assms
  by (auto simp: select_network_def saveConfig_fields network_question_def Let_def
      split: option.splits dest!: prompt_world)



lemma encryptKey_hex:
  assumes "encryptKey c k p r = (Inr x, r1)"
  shows "is_hex (encrypted x)" "is_hex (salt x)" "is_hex (iv x)" "is_hex (authTag x)"
  using assms by (cases p; auto simp: encryptKey_string is_hex_toString_hex encryptKey_def
      randomBytes_def Let_def split: prod.splits)+

lemma is_encrypted_entry_obj:
  assumes "is_hex (encrypted x)" "is_hex (salt x)" "is_hex (iv x)" "is_hex (authTag x)"
  shows "is_encrypted_entry (encrypted_key_obj x)"
  using assms by (simp add: is_encrypted_entry_def encrypted_key_obj_def is_hex_string_def)



lemma or_else_defined: "b \<noteq> JUndefined \<Longrightarrow> or_else a b \<noteq> JUndefined"
  by (auto simp: or_else_def truthy_def)

lemma keystore_record:
  assumes "enc = JNull \<or> (\<exists>x. enc = encrypted_key_obj x \<and> is_encrypted_entry enc)"
  shows "is_keystore_record (stringify (walletConfig_of wd enc t))"
    and "getprop (stringify (walletConfig_of wd enc t)) ''rawSecretKey'' = JUndefined"
    and "getprop (stringify (walletConfig_of wd enc t)) ''base58Key'' = JUndefined"
    and "getprop (stringify (walletConfig_of wd enc t)) ''seedPhrase'' = JUndefined"
    and "getprop (stringify (walletConfig_of wd enc t)) ''encryptedKey'' = enc"
proof -
  have n: "or_else (getprop wd ''network'') (JStr (js ''devnet'')) \<noteq> JUndefined"
    and ty: "or_else (getprop wd ''type'') (JStr (js ''local'')) \<noteq> JUndefined"
    by (simp_all add: or_else_defined)
  have e: "enc \<noteq> JUndefined" "stringify enc = enc"
    using assms by (auto simp: encrypted_key_obj_def)
  show "is_keystore_record (stringify (walletConfig_of wd enc t))"
    using n ty e assms
    by (auto simp: walletConfig_of_def is_keystore_record_def getprop_def)
  show "getprop (stringify (walletConfig_of wd enc t)) ''rawSecretKey'' = JUndefined"
    "getprop (stringify (walletConfig_of wd enc t)) ''base58Key'' = JUndefined"
    "getprop (stringify (walletConfig_of wd enc t)) ''seedPhrase'' = JUndefined"
    "getprop (stringify (walletConfig_of wd enc t)) ''encryptedKey'' = enc"
    using n ty e by (auto simp: walletConfig_of_def getprop_def)
qed





lemma js_actions:
  "js ''create'' \<noteq> js ''skip''" "js ''create'' \<noteq> js ''keep''"
  "js ''hardware'' \<noteq> js ''skip''" "js ''hardware'' \<noteq> js ''create''"
  "js ''hardware'' \<noteq> js ''import-key''" "js ''hardware'' \<noteq> js ''import-seed''"
  by (simp_all add: js_def)

lemma encrypt_wallet_readline:
  assumes "inquirer e = None" and "ora e" and "stdin w = pw # confirm # rest" and "pw \<noteq> []"
    and "getprop wd ''rawSecretKey'' = JBytes sk"
  shows "encrypt_wallet e wd w =
     Some (map_sum id encrypted_key_obj (fst (encryptKey (crypto e) (toString_hex sk) (JStr pw) (random w))),
           w\<lparr>stdin := rest, asked := asked w @ [''password'', ''confirmPassword''],
             random := snd (encryptKey (crypto e) (toString_hex sk) (JStr pw) (random w))\<rparr>)"
  using assms
  by (simp add: encrypt_wallet_def prompt_readline truthy_def answer_single password_question_def
      confirmPassword_question_def readline_answer_def or_else_def spinner_start_def
      Buffer_from_def Let_def split: prod.splits sum.splits)


lemma select_network_readline:
  assumes "inquirer e = None" and "stdin w = net # rest"
  shows "\<exists>w'. select_network e wc w = Some w' \<and> stdin w' = rest"
  using assms by (simp add: select_network_def prompt_readline Let_def saveConfig_fields)

lemma wallet_try_create_readline:
  assumes inq: "inquirer e = None" and ora: "ora e"
    and inp: "stdin w = pw # confirm # net # rest" and pw: "pw \<noteq> []"
    and gen: "generateNewWallet e (random w) = (Inr created, r1)"
    and sk: "getprop created ''rawSecretKey'' = JBytes sk"
    and enc: "encryptKey (crypto e) (toString_hex sk) (JStr pw) r1 = (Inr x, r2)"
  shows "\<exists>w'. wallet_try e (JStr (js ''create'')) w = Some (Inr (), w')
     \<and> files w' walletFile = Some (stringify (walletConfig_of created (encrypted_key_obj x) (now w)))
     \<and> stdin w' = rest
     \<and> asked w' = asked w @ [''password'', ''confirmPassword'', ''network'']"
proof -
  let ?wc = "walletConfig_of created (encrypted_key_obj x) (now w)"
  define w2 where "w2 = w\<lparr>random := r1\<rparr>\<lparr>stdin := net # rest,
      asked := asked (w\<lparr>random := r1\<rparr>) @ [''password'', ''confirmPassword''],
      random := snd (encryptKey (crypto e) (toString_hex sk) (JStr pw) (random (w\<lparr>random := r1\<rparr>)))\<rparr>"
  define w3 where "w3 = save_wallet ?wc w2"
  have sel: "select_wallet e (JStr (js ''create'')) w = Some (Inr created, w\<lparr>random := r1\<rparr>)"
    using gen by (simp add: select_wallet_def)
  have "stdin (w\<lparr>random := r1\<rparr>) = pw # confirm # net # rest"
    using inp by simp
  from encrypt_wallet_readline [OF inq ora this pw sk]
  have ew: "encrypt_wallet e created (w\<lparr>random := r1\<rparr>) = Some (Inr (encrypted_key_obj x), w2)"
    using enc unfolding w2_def by simp
  have w2: "stdin w2 = net # rest" "now w2 = now w"
    "asked w2 = asked w @ [''password'', ''confirmPassword'']"
    by (simp_all add: w2_def)
  have w3: "stdin w3 = net # rest" "files w3 walletFile = Some (stringify ?wc)"
    "asked w3 = asked w @ [''password'', ''confirmPassword'']"
    by (simp_all add: w3_def save_wallet_fields w2)
  obtain w4 where net: "select_network e ?wc w3 = Some w4" and left: "stdin w4 = rest"
    using select_network_readline [OF inq w3(1)] by blast
  have run: "wallet_try e (JStr (js ''create'')) w = Some (Inr (), w4)"
    by (simp add: wallet_try_def sel ew Let_def w2(2) w3_def [symmetric] net)
  show ?thesis
    using run left select_network_fields(1,3) [OF net] w3 by simp
qed


lemma generateNewWallet_secret:
  assumes "generateNewWallet e r = (Inr created, r1)"
  shows "\<exists>sk. getprop created ''rawSecretKey'' = JBytes sk"
  using assms
  by (auto simp: generateNewWallet_def getprop_def Let_def
      split: option.splits sum.splits prod.splits)

lemma stepWalletSetup_create_readline:
  assumes inq: "inquirer e = None" and ora: "ora e"
    and fresh: "\<not> truthy (getprop (config w) ''wallet'')"
    and inp: "stdin w = js ''create'' # pw # confirm # net # cont # rest" and pw: "pw \<noteq> []"
    and gen: "generateNewWallet e (random w) = (Inr created, r1)"
    and sk: "getprop created ''rawSecretKey'' = JBytes sk"
    and enc: "encryptKey (crypto e) (toString_hex sk) (JStr pw) r1 = (Inr x, r2)"
  shows "\<exists>w'. stepWalletSetup e w = Some w'
     \<and> files w' walletFile = Some (stringify (walletConfig_of created (encrypted_key_obj x) (now w)))
     \<and> asked w' = asked w @ [''walletAction'', ''password'', ''confirmPassword'', ''network'',
                               ''continue'']"
proof -
  define w1 where "w1 = w\<lparr>stdin := pw # confirm # net # cont # rest,
                            asked := asked w @ [q_name walletAction_question]\<rparr>"
  have ask: "prompt e [walletAction_question] w =
      Some ([q_name walletAction_question \<mapsto> readline_answer walletAction_question (js ''create'')], w1)"
    unfolding w1_def by (rule prompt_readline [OF inq inp])
  have act: "answer [q_name walletAction_question \<mapsto>
               readline_answer walletAction_question (js ''create'')] ''walletAction''
             = JStr (js ''create'')"
    by (simp add: walletAction_question_def readline_answer_def answer_def)
  have w1': "stdin w1 = pw # confirm # net # cont # rest" "random w1 = random w" "now w1 = now w"
    "asked w1 = asked w @ [''walletAction'']"
    by (simp_all add: w1_def walletAction_question_def)
  obtain w3 where run: "wallet_try e (JStr (js ''create'')) w1 = Some (Inr (), w3)"
    and f3: "files w3 walletFile = Some (stringify (walletConfig_of created (encrypted_key_obj x) (now w)))"
    and s3: "stdin w3 = cont # rest"
    and a3: "asked w3 = asked w @ [''walletAction''] @ [''password'', ''confirmPassword'', ''network'']"
    using wallet_try_create_readline [OF inq ora w1'(1) pw, of created r1 sk x r2] gen sk enc
    by (auto simp: w1')
  have fin: "prompt e [continue_question] w3 =
      Some ([q_name continue_question \<mapsto> readline_answer continue_question cont],
            w3\<lparr>stdin := rest, asked := asked w3 @ [q_name continue_question]\<rparr>)"
    by (rule prompt_readline [OF inq s3])
  have "stepWalletSetup e w =
      Some (w3\<lparr>stdin := rest, asked := asked w3 @ [q_name continue_question]\<rparr>)"
    by (simp add: stepWalletSetup_def fresh ask act run fin js_actions Let_def)
  then show ?thesis
    using f3 a3 by (simp add: continue_question_def)
qed


lemma demo_facts:
  "inquirer demo_env = None" "ora demo_env" "crypto demo_env = demo_crypto"
  "\<not> truthy (getprop (config (demo_world ls)) ''wallet'')"
  "stdin (demo_world ls) = ls" "random (demo_world ls) = \<lparr>entropy = demo_entropy, pos = 0\<rparr>"
  "files (demo_world ls) = Map.empty" "asked (demo_world ls) = []"
  by (simp_all add: demo_env_def demo_world_def initial_config_def getprop_def truthy_def)

text \<open>
  C9 fails without \<open>inquirer\<close>. The readline fallback of \<open>prompt\<close> does not consult
  \<open>validate\<close>: the user creates a wallet, enters the password \<open>abc\<close> and confirms it
  with \<open>xyz\<close>; the key is encrypted under \<open>abc\<close> and the wallet is written, although
  the question asks for eight characters and the confirmation for the same text.
\<close>

theorem short_password_accepted:
  "\<exists>created r1 sk x r2 w' record.
      generateNewWallet demo_env \<lparr>entropy = demo_entropy, pos = 0\<rparr> = (Inr created, r1)
    \<and> getprop created ''rawSecretKey'' = JBytes sk
    \<and> encryptKey demo_crypto (toString_hex sk) (JStr (js ''abc'')) r1 = (Inr x, r2)
    \<and> stepWalletSetup demo_env
          (demo_world [js ''create'', js ''abc'', js ''xyz'', js ''devnet'', js ''y'']) = Some w'
    \<and> files w' walletFile = Some record
    \<and> getprop record ''encryptedKey'' = encrypted_key_obj x
    \<and> asked w' = [''walletAction'', ''password'', ''confirmPassword'', ''network'', ''continue'']
    \<and> q_validate password_question = Some at_least_8
    \<and> \<not> at_least_8 (JStr (js ''abc''))
    \<and> q_validate (confirmPassword_question (JStr (js ''abc''))) = Some (\<lambda>input. input = JStr (js ''abc''))
    \<and> JStr (js ''xyz'') \<noteq> JStr (js ''abc'')"
proof -
  let ?w = "demo_world [js ''create'', js ''abc'', js ''xyz'', js ''devnet'', js ''y'']"
  obtain created r1 where
    gen: "generateNewWallet demo_env \<lparr>entropy = demo_entropy, pos = 0\<rparr> = (Inr created, r1)"
    using demo_generate by blast
  obtain sk where sk: "getprop created ''rawSecretKey'' = JBytes sk"
    using generateNewWallet_secret [OF gen] by blast
  obtain x r2 where
    enc: "encryptKey demo_crypto (toString_hex sk) (JStr (js ''abc'')) r1 = (Inr x, r2)"
    by (simp add: encryptKey_string)
  have pw: "js ''abc'' \<noteq> []" by (simp add: js_def)
  have gen': "generateNewWallet demo_env (random ?w) = (Inr created, r1)"
    using gen by (simp add: demo_facts)
  have enc': "encryptKey (crypto demo_env) (toString_hex sk) (JStr (js ''abc'')) r1 = (Inr x, r2)"
    using enc by (simp add: demo_facts)
  obtain w' where run: "stepWalletSetup demo_env ?w = Some w'"
    and written: "files w' walletFile =
        Some (stringify (walletConfig_of created (encrypted_key_obj x) (now ?w)))"
    and asked: "asked w' = asked ?w @ [''walletAction'', ''password'', ''confirmPassword'', 
         ''network'', ''continue'']"
    using stepWalletSetup_create_readline [OF demo_facts(1,2,4) _ pw gen' sk enc', of "js ''xyz''"
        "js ''devnet''" "js ''y''" "[]"]
    by (auto simp: demo_facts)
  have shape: "encrypted_key_obj x = JNull \<or>
      (\<exists>y. encrypted_key_obj x = encrypted_key_obj y \<and> is_encrypted_entry (encrypted_key_obj x))"
    using is_encrypted_entry_obj [OF encryptKey_hex [OF enc]] by blast
  have entry: "getprop (stringify (walletConfig_of created (encrypted_key_obj x) (now ?w)))
      ''encryptedKey'' = encrypted_key_obj x"
    by (rule keystore_record(5) [OF shape])
  have short: "\<not> at_least_8 (JStr (js ''abc''))" "JStr (js ''xyz'') \<noteq> JStr (js ''abc'')"
    by (simp_all add: at_least_8_def js_def)
  show ?thesis
    using gen sk enc run written entry asked short
    by (simp add: demo_facts password_question_def confirmPassword_question_def)
qed


text \<open>
  C8. Whenever the body of the wallet step runs to its end with the answer \<open>hardware\<close>:
  \<open>connectHardwareWallet\<close> returned a record of type \<open>hardware\<close> without
  \<open>rawSecretKey\<close>; the encryption stage returned \<open>null\<close> at once, leaving the state as
  it was; the only questions asked were the public key and the network, so no password
  was collected; no entropy was drawn, so \<open>encryptKey\<close> was not called; and the record
  written has type \<open>hardware\<close> and \<open>encryptedKey\<close> \<open>null\<close>.
\<close>

theorem hardware_wallet_skips_encryption:
  assumes "wallet_try e (JStr (js ''hardware'')) w = Some (res, w')"
  shows "\<exists>publicKey w1 record.
       connectHardwareWallet e w =
         Some (Inr (JObj [(''publicKey'', publicKey), (''type'', JStr (js ''hardware'')),
                          (''network'', JStr (js ''devnet'')), (''encryptedKey'', JNull)]), w1)
     \<and> getprop (JObj [(''publicKey'', publicKey), (''type'', JStr (js ''hardware'')),
                       (''network'', JStr (js ''devnet'')), (''encryptedKey'', JNull)])
           ''rawSecretKey'' = JUndefined
     \<and> encrypt_wallet e
           (JObj [(''publicKey'', publicKey), (''type'', JStr (js ''hardware'')),
                  (''network'', JStr (js ''devnet'')), (''encryptedKey'', JNull)]) w1
           = Some (Inr JNull, w1)
     \<and> res = Inr ()
     \<and> asked w' = asked w @ [''publicKey'', ''network'']
     \<and> random w' = random w
     \<and> files w' walletFile = Some record
     \<and> is_keystore_record record
     \<and> getprop record ''type'' = JStr (js ''hardware'')
     \<and> getprop record ''encryptedKey'' = JNull"
proof -
  let ?wd = "\<lambda>publicKey. JObj [(''publicKey'', publicKey), (''type'', JStr (js ''hardware'')),
                          (''network'', JStr (js ''devnet'')), (''encryptedKey'', JNull)]"
  have sel: "select_wallet e (JStr (js ''hardware'')) w = connectHardwareWallet e w"
    by (simp add: select_wallet_def js_actions)
  from assms obtain answers w1 where
    ask: "prompt e [publicKey_question] w = Some (answers, w1)"
    by (auto simp: wallet_try_def sel connectHardwareWallet_def split: option.splits)
  define publicKey where "publicKey = answer answers ''publicKey''"
  have hw: "connectHardwareWallet e w = Some (Inr (?wd publicKey), w1)"
    by (simp add: connectHardwareWallet_def ask publicKey_def)
  have w1: "asked w1 = asked w @ [''publicKey'']" "random w1 = random w"
    using prompt_world [OF ask] by (auto simp: publicKey_question_def)
  have raw: "getprop (?wd publicKey) ''rawSecretKey'' = JUndefined"
    by (simp add: getprop_def)
  have enc: "encrypt_wallet e (?wd publicKey) w1 = Some (Inr JNull, w1)"
    by (simp add: encrypt_wallet_def raw truthy_def)
  let ?wc = "walletConfig_of (?wd publicKey) JNull (now w1)"
  from assms have net: "select_network e ?wc (save_wallet ?wc w1) = Some w'" and res: "res = Inr ()"
    by (auto simp: wallet_try_def sel hw enc Let_def split: option.splits)
  have written: "files w' walletFile = Some (stringify ?wc)"
    using select_network_fields(1) [OF net] by (simp add: save_wallet_fields)
  have asked: "asked w' = asked w @ [''publicKey'', ''network'']"
    using select_network_fields(3) [OF net] by (simp add: save_wallet_fields w1)
  have rnd: "random w' = random w"
    using select_network_fields(2) [OF net] by (simp add: save_wallet_fields w1)
  have shape: "is_keystore_record (stringify ?wc)"
    "getprop (stringify ?wc) ''encryptedKey'' = JNull"
    using keystore_record(1,5) [of JNull] by simp_all
  have ty: "getprop (stringify ?wc) ''type'' = JStr (js ''hardware'')"
    by (simp add: walletConfig_of_def getprop_def or_else_def truthy_def js_def)
  show ?thesis
    using hw raw enc res asked rnd written shape ty by blast
qed

lemma wallet_try_hardware_readline:
  assumes inq: "inquirer e = None" and inp: "stdin w = pk # net # rest"
  shows "\<exists>w'. wallet_try e (JStr (js ''hardware'')) w = Some (Inr (), w')"
proof -
  let ?pk = "readline_answer publicKey_question pk"
  let ?wd = "JObj [(''publicKey'', ?pk), (''type'', JStr (js ''hardware'')),
                   (''network'', JStr (js ''devnet'')), (''encryptedKey'', JNull)]"
  define w1 where "w1 = w\<lparr>stdin := net # rest, asked := asked w @ [q_name publicKey_question]\<rparr>"
  have ask: "prompt e [publicKey_question] w = Some ([q_name publicKey_question \<mapsto> ?pk], w1)"
    unfolding w1_def by (rule prompt_readline [OF inq inp])
  have nm: "q_name publicKey_question = ''publicKey''"
    by (simp add: publicKey_question_def)
  have hw: "select_wallet e (JStr (js ''hardware'')) w = Some (Inr ?wd, w1)"
    by (simp add: select_wallet_def js_actions connectHardwareWallet_def ask answer_def nm)
  have enc: "encrypt_wallet e ?wd w1 = Some (Inr JNull, w1)"
    by (simp add: encrypt_wallet_def getprop_def truthy_def)
  let ?wc = "walletConfig_of ?wd JNull (now w1)"
  have "stdin (save_wallet ?wc w1) = net # rest"
    by (simp add: save_wallet_fields w1_def)
  from select_network_readline [OF inq this]
  obtain w' where "select_network e ?wc (save_wallet ?wc w1) = Some w'"
    by blast
  then show ?thesis
    by (simp add: wallet_try_def hw enc Let_def)
qed

theorem hardware_wallet_skips_encryption_witness:
  "\<exists>w' record. wallet_try demo_env (JStr (js ''hardware''))
        (demo_world [js ''HWKEY'', js ''devnet'']) = Some (Inr (), w')
     \<and> asked w' = [''publicKey'', ''network'']
     \<and> random w' = \<lparr>entropy = demo_entropy, pos = 0\<rparr>
     \<and> files w' walletFile = Some record
     \<and> getprop record ''type'' = JStr (js ''hardware'')
     \<and> getprop record ''encryptedKey'' = JNull"
proof -
  obtain w' where run: "wallet_try demo_env (JStr (js ''hardware''))
        (demo_world [js ''HWKEY'', js ''devnet'']) = Some (Inr (), w')"
    using wallet_try_hardware_readline [OF demo_facts(1),
        where w = "demo_world [js ''HWKEY'', js ''devnet'']" and pk = "js ''HWKEY''"
          and net = "js ''devnet''" and rest = "[]"]
    by (auto simp: demo_facts)
  from hardware_wallet_skips_encryption [OF run] run show ?thesis
    by (auto simp: demo_facts)
qed

end
